theory Spec2Isabelle
  imports Main "HOL-Library.Word"
begin

unbundle bit_operations_syntax

section \<open>The daemon's data\<close>

text \<open>
  The embedded program is \<^verbatim>\<open>src/tabd.c\<close>: the three D-Bus method handlers
  (\<^verbatim>\<open>on_handle_create_connection\<close>, \<^verbatim>\<open>on_handle_cancel\<close>,
  \<^verbatim>\<open>on_handle_set_locality\<close>), the Unix signal handler, the seeding of the random
  number generator and the initialisation thread.

  Each C function becomes a HOL function that takes the part of \<^verbatim>\<open>gmain_data_t\<close>
  it reads, the results of the calls it makes into code outside this file, and returns
  its result, the updated data and the list of calls it made, in program order.
  Integer widths are those of an LP64 platform: \<^verbatim>\<open>long int\<close> and \<^verbatim>\<open>guint64\<close> are both
  64 bits wide, which is what passing \<^verbatim>\<open>&id\<close> to \<^verbatim>\<open>lrand48_r\<close> relies on.
\<close>

type_synonym guint64 = "64 word"
type_synonym gint64 = "64 word"
type_synonym guint8 = "8 word"
type_synonym TSS2_RC = "32 word"
type_synonym fd = int

text \<open>\<^verbatim>\<open>TSS2_RC_SUCCESS\<close> of \<^verbatim>\<open>sapi/tpm20.h\<close>.\<close>

definition TSS2_RC_SUCCESS :: TSS2_RC where
  "TSS2_RC_SUCCESS = 0"

text \<open>
  Modelled from the spec: \<^verbatim>\<open>SessionData\<close> is declared in \<^verbatim>\<open>session-data.h\<close>, which is
  not part of the sources at hand. The fields are those of the spec's Session: the id,
  the locality (default 0), the two server-side endpoints and at most one in-flight
  command.
\<close>

record session_data =
  session_id :: guint64
  locality :: guint8
  command_endpoint :: fd
  response_endpoint :: fd
  pending :: "8 word list option"

text \<open>
  The two socket pairs \<^verbatim>\<open>session_data_new\<close> allocates: the client ends it stores
  through its first two arguments and the server ends the session keeps.
\<close>

record socket_pairs =
  client_fd0 :: fd
  client_fd1 :: fd
  server_command_fd :: fd
  server_response_fd :: fd

text \<open>
  Modelled from the spec: \<^verbatim>\<open>session_data_new\<close> is declared in \<^verbatim>\<open>session-data.h\<close>.
  It builds a session with the given id from the two server-side endpoints and hands
  the client ends back; \<open>None\<close> is the \<^verbatim>\<open>NULL\<close> it returns when the allocation fails.
\<close>

definition session_data_new :: "socket_pairs option \<Rightarrow> guint64 \<Rightarrow> (session_data \<times> fd \<times> fd) option" where
  "session_data_new alloc i =
     (case alloc of
        None \<Rightarrow> None
      | Some p \<Rightarrow>
          Some (\<lparr>session_id = i, locality = 0,
                 command_endpoint = server_command_fd p,
                 response_endpoint = server_response_fd p,
                 pending = None\<rparr>,
                client_fd0 p, client_fd1 p))"

text \<open>
  Modelled from the spec: \<^verbatim>\<open>SessionManager\<close> is declared in \<^verbatim>\<open>session-manager.h\<close>.
  The registry maps a session id to its session; \<open>insert\<close> rejects an id that is already
  present, \<open>lookup_by_id\<close> returns the session or nothing.
\<close>

type_synonym session_manager = "guint64 \<rightharpoonup> session_data"

datatype insert_result = ok | duplicate_id

text \<open>
  Modelled from the spec: the body of \<^verbatim>\<open>session_manager_insert\<close> is not part of the
  sources at hand. \<open>insert(session) \<rightarrow> ok | duplicate_id\<close>: it rejects a duplicate id and
  stores any other session under its id. The handler only tests the result against 0,
  which is \<open>ok\<close>.
\<close>

definition session_manager_insert :: "session_manager \<Rightarrow> session_data \<Rightarrow> insert_result \<times> session_manager" where
  "session_manager_insert m s =
     (case m (session_id s) of
        None \<Rightarrow> (ok, m(session_id s \<mapsto> s))
      | Some _ \<Rightarrow> (duplicate_id, m))"

text \<open>
  Modelled from the spec: the body of \<^verbatim>\<open>session_manager_lookup_id\<close> is not part of the
  sources at hand. \<open>lookup_by_id(id) \<rightarrow> session | not_found\<close>, where \<open>None\<close> is the
  \<^verbatim>\<open>NULL\<close> the handlers test for.
\<close>

definition session_manager_lookup_id :: "session_manager \<Rightarrow> gint64 \<Rightarrow> session_data option" where
  "session_manager_lookup_id m i = m i"

subsection \<open>The random number generator\<close>

text \<open>
  \<^verbatim>\<open>struct drand48_data\<close> holds the 48-bit state of the C library's linear congruential
  generator. \<^verbatim>\<open>srand48_r\<close> and \<^verbatim>\<open>lrand48_r\<close> are the C library's, as POSIX fixes
  them: the seed's low 32 bits become the state's high 32 bits above the constant
  \<^verbatim>\<open>0x330E\<close>; a draw multiplies the state by \<^verbatim>\<open>0x5DEECE66D\<close>, adds \<^verbatim>\<open>0xB\<close> modulo
  \<open>2 ^ 48\<close> and returns the new state's high 31 bits as a non-negative \<^verbatim>\<open>long int\<close>.
\<close>

type_synonym drand48_data = "48 word"

definition srand48_r :: "64 word \<Rightarrow> drand48_data" where
  "srand48_r seedval = push_bit 16 (ucast (seedval AND 0xFFFFFFFF)) OR 0x330E"

definition drand48_iterate :: "drand48_data \<Rightarrow> drand48_data" where
  "drand48_iterate x = x * 0x5DEECE66D + 0xB"

definition lrand48_r :: "drand48_data \<Rightarrow> 64 word \<times> drand48_data" where
  "lrand48_r x = (let x' = drand48_iterate x in (ucast (drop_bit 17 x'), x'))"

subsection \<open>Calls and outcomes\<close>

datatype log_level = LOG_DEBUG | LOG_INFO | LOG_WARNING | LOG_ERROR

datatype stage = COMMAND_SOURCE | TAB | RESPONSE_SINK

text \<open>
  The calls the functions of \<^verbatim>\<open>tabd.c\<close> make into GLib, GDBus, the C library and the
  other modules of the daemon. A log call carries its format string. Building the
  \<^verbatim>\<open>GVariant\<close> of a reply and releasing the descriptor list are part of the reply's
  event: the reply of \<^verbatim>\<open>CreateConnection\<close> carries the array of handles, the id and the
  descriptor list, the reply of the other two methods the response code.
\<close>

datatype event =
    Log log_level string
  | MutexLock
  | MutexUnlock
  | Lrand48
  | SessionDataNew guint64
  | ReturnValueWithUnixFdList "int list" guint64 "fd list"
  | ReturnValue TSS2_RC
  | SessionManagerInsert guint64
  | SessionManagerLookupId gint64
  | MainLoopIsRunning
  | MainLoopQuit
  | Signal int
  | Open string
  | Read
  | Srand48 "64 word"
  | SessionManagerNew
  | TctiInitialize
  | CommandSourceNew
  | TabNew
  | ResponseSinkNew
  | SourceAddSink stage stage
  | ThreadStart stage

text \<open>
  A function either returns or ends the process: \<^verbatim>\<open>g_error\<close> logs at the error level,
  which GLib always treats as fatal, and calls \<^verbatim>\<open>abort\<close>; the process dies of
  \<^verbatim>\<open>SIGABRT\<close>, so its exit status is not zero.
\<close>

datatype 'a outcome = Returned 'a | Aborted

text \<open>
  The fields of \<^verbatim>\<open>gmain_data_t\<close> the handlers read and write. The handlers are
  modelled on initialised data: \<open>manager\<close> is the registry \<^verbatim>\<open>init_thread_func\<close> created.
\<close>

record gmain_data =
  manager :: session_manager
  rand_data :: drand48_data

section \<open>The method handlers\<close>

text \<open>
  \<^verbatim>\<open>handle_array_variant_from_fdlist\<close>: the array of handles is the list of the indices
  into the descriptor list, \<open>0\<close> up to its length.
\<close>

definition handle_array_variant_from_fdlist :: "fd list \<Rightarrow> int list" where
  "handle_array_variant_from_fdlist fdlist = map int [0 ..< length fdlist]"

text \<open>
  \<^verbatim>\<open>on_handle_create_connection\<close>, lines 101 to 119: wait for the initialisation thread,
  draw the id, allocate the session, build and send the reply.
\<close>

datatype reply_phase =
    Replied session_data gmain_data "event list"
  | ReplyAborted gmain_data "event list"

definition create_connection_reply :: "socket_pairs option \<Rightarrow> gmain_data \<Rightarrow> reply_phase" where
  "create_connection_reply alloc data =
     (let (i, rd) = lrand48_r (rand_data data);
          data1 = data\<lparr>rand_data := rd\<rparr>;
          t1 = [MutexLock, MutexUnlock, Lrand48, SessionDataNew i]
      in case session_data_new alloc i of
           None \<Rightarrow> ReplyAborted data1 (t1 @ [Log LOG_ERROR ''Failed to allocate new session.''])
         | Some (session, fd0, fd1) \<Rightarrow>
             (let fd_list = [fd0, fd1]
              in Replied session data1
                   (t1 @ [Log LOG_DEBUG ''Created connection with fds: %d, %d and id: %ld'',
                          ReturnValueWithUnixFdList
                            (handle_array_variant_from_fdlist fd_list) i fd_list])))"

text \<open>
  \<^verbatim>\<open>on_handle_create_connection\<close>, lines 120 to 125: add the session to the manager.
\<close>

definition create_connection_insert ::
    "session_data \<Rightarrow> gmain_data \<Rightarrow> event list \<Rightarrow> bool outcome \<times> gmain_data \<times> event list" where
  "create_connection_insert session data t =
     (let (ret, m) = session_manager_insert (manager data) session;
          t2 = t @ [SessionManagerInsert (session_id session)]
      in if ret \<noteq> ok
         then (Aborted, data\<lparr>manager := m\<rparr>,
               t2 @ [Log LOG_ERROR ''Failed to add new session to session_manager.''])
         else (Returned True, data\<lparr>manager := m\<rparr>, t2))"

definition on_handle_create_connection ::
    "socket_pairs option \<Rightarrow> gmain_data \<Rightarrow> bool outcome \<times> gmain_data \<times> event list" where
  "on_handle_create_connection alloc data =
     (case create_connection_reply alloc data of
        ReplyAborted data1 t \<Rightarrow> (Aborted, data1, t)
      | Replied session data1 t \<Rightarrow> create_connection_insert session data1 t)"

text \<open>
  \<^verbatim>\<open>on_handle_cancel\<close>: wait for the initialisation thread, look the session up; without
  a session warn and return \<^verbatim>\<open>FALSE\<close>, with one send \<^verbatim>\<open>TSS2_RC_SUCCESS\<close>.
\<close>

definition on_handle_cancel :: "gint64 \<Rightarrow> gmain_data \<Rightarrow> bool outcome \<times> gmain_data \<times> event list" where
  "on_handle_cancel i data =
     (let t = [Log LOG_INFO ''on_handle_cancel for id 0x%x'', MutexLock, MutexUnlock,
               SessionManagerLookupId i]
      in case session_manager_lookup_id (manager data) i of
           None \<Rightarrow>
             (Returned False, data, t @ [Log LOG_WARNING ''no active session for id: 0x%x''])
         | Some session \<Rightarrow>
             (Returned True, data,
              t @ [Log LOG_INFO ''canceling command for session 0x%x'',
                   ReturnValue TSS2_RC_SUCCESS]))"

text \<open>
  \<^verbatim>\<open>on_handle_set_locality\<close>: the same steps, with the locality in the log message.
\<close>

definition on_handle_set_locality ::
    "gint64 \<Rightarrow> guint8 \<Rightarrow> gmain_data \<Rightarrow> bool outcome \<times> gmain_data \<times> event list" where
  "on_handle_set_locality i loc data =
     (let t = [Log LOG_INFO ''on_handle_set_locality for id 0x%x'', MutexLock, MutexUnlock,
               SessionManagerLookupId i]
      in case session_manager_lookup_id (manager data) i of
           None \<Rightarrow>
             (Returned False, data, t @ [Log LOG_WARNING ''no active session for id: 0x%x''])
         | Some session \<Rightarrow>
             (Returned True, data,
              t @ [Log LOG_INFO ''setting locality for session 0x%x to: 0x%x'',
                   ReturnValue TSS2_RC_SUCCESS]))"

section \<open>Shutdown\<close>

text \<open>
  The \<^verbatim>\<open>GMainLoop\<close> as far as \<^verbatim>\<open>main_loop_quit\<close> sees it: whether it is running.
  \<open>None\<close> is the \<^verbatim>\<open>NULL\<close> pointer.
\<close>

record GMainLoop =
  is_running :: bool

text \<open>
  \<^verbatim>\<open>main_loop_quit\<close>: log, then quit the loop when it is there and running. The test
  \<^verbatim>\<open>loop && g_main_loop_is_running (loop)\<close> calls the second operand only for a loop
  that is not \<^verbatim>\<open>NULL\<close>.
\<close>

definition main_loop_quit :: "GMainLoop option \<Rightarrow> GMainLoop option \<times> event list" where
  "main_loop_quit loop =
     (let t = [Log LOG_INFO ''main_loop_quit'']
      in case loop of
           None \<Rightarrow> (None, t)
         | Some l \<Rightarrow>
             if is_running l
             then (Some (l\<lparr>is_running := False\<rparr>), t @ [MainLoopIsRunning, MainLoopQuit])
             else (Some l, t @ [MainLoopIsRunning]))"

text \<open>
  \<^verbatim>\<open>signal_handler\<close>: log, then \<^verbatim>\<open>main_loop_quit\<close> on the global \<^verbatim>\<open>g_loop\<close>.
\<close>

definition signal_handler :: "int \<Rightarrow> GMainLoop option \<Rightarrow> GMainLoop option \<times> event list" where
  "signal_handler signum g_loop =
     (let (l, t) = main_loop_quit g_loop
      in (l, Log LOG_INFO ''handling signal'' # t))"

definition SIGINT :: int where
  "SIGINT = 2"

definition SIGTERM :: int where
  "SIGTERM = 15"

section \<open>Initialisation\<close>

text \<open>
  What the entropy file gives: whether \<^verbatim>\<open>open\<close> returned a descriptor, and what \<^verbatim>\<open>read\<close>
  did. \<open>None\<close> is a \<^verbatim>\<open>read\<close> that returned \<open>-1\<close>; \<open>Some v\<close> is any other return, after
  which \<^verbatim>\<open>rand_seed\<close> holds \<open>v\<close> (the code does not look at the number of bytes read).
\<close>

record entropy =
  open_ok :: bool
  read_seed :: "64 word option"

definition seed_rand_data :: "string \<Rightarrow> entropy \<Rightarrow> drand48_data \<Rightarrow> int \<times> drand48_data \<times> event list" where
  "seed_rand_data fname e rd =
     (let t = [Log LOG_DEBUG ''opening entropy source: %s'', Open fname]
      in if \<not> open_ok e
         then (1, rd, t @ [Log LOG_WARNING ''failed to open entropy source %s: %s''])
         else
           (let t1 = t @ [Log LOG_DEBUG ''reading from entropy source: %s'', Read]
            in case read_seed e of
                 None \<Rightarrow>
                   (1, rd, t1 @ [Log LOG_WARNING ''failed to read from entropy source %s, %s''])
               | Some rand_seed \<Rightarrow>
                   (0, srand48_r rand_seed,
                    t1 @ [Log LOG_DEBUG ''seeding rand with %ld'', Srand48 rand_seed])))"

text \<open>
  The results of the calls \<^verbatim>\<open>init_thread_func\<close> makes: the entropy file (its name is the
  macro \<^verbatim>\<open>TABD_RAND_FILE\<close> of \<^verbatim>\<open>tabd-priv.h\<close>), whether \<^verbatim>\<open>session_manager_new\<close> returned
  an object, the code of \<^verbatim>\<open>tcti_initialize\<close> and the results of the three
  \<^verbatim>\<open>thread_start\<close> calls.
\<close>

record init_env =
  rand_file :: string
  entropy_source :: entropy
  manager_new :: bool
  tcti_rc :: TSS2_RC
  start_command_source :: int
  start_tab :: int
  start_response_sink :: int

text \<open>
  \<^verbatim>\<open>init_thread_func\<close>, from the \<^verbatim>\<open>drand48_data\<close> that \<^verbatim>\<open>main\<close> zeroed. Every
  \<^verbatim>\<open>g_error\<close> ends the process with the mutex still held. The registry
  \<^verbatim>\<open>session_manager_new\<close> returns holds no session.
\<close>

definition init_thread_func :: "init_env \<Rightarrow> drand48_data \<Rightarrow> gmain_data outcome \<times> event list" where
  "init_thread_func env rd0 =
     (let t0 = [Log LOG_INFO ''init_thread_func start'', MutexLock, Signal SIGINT, Signal SIGTERM];
          (r, rd, ts) = seed_rand_data (rand_file env) (entropy_source env) rd0;
          t1 = t0 @ ts
      in if r \<noteq> 0
         then (Aborted, t1 @ [Log LOG_ERROR ''failed to seed random number generator''])
         else
      let t2 = t1 @ [SessionManagerNew]
      in if \<not> manager_new env
         then (Aborted, t2 @ [Log LOG_ERROR ''failed to allocate connection_manager''])
         else
      let t3 = t2 @ [Log LOG_DEBUG ''SessionManager: 0x%x'', TctiInitialize]
      in if tcti_rc env \<noteq> TSS2_RC_SUCCESS
         then (Aborted, t3 @ [Log LOG_ERROR ''failed to initialize TCTI: 0x%x''])
         else
      let t4 = t3 @ [CommandSourceNew, Log LOG_DEBUG ''created session source: 0x%x'',
                     TabNew, Log LOG_DEBUG ''created tab: 0x%x'',
                     ResponseSinkNew, Log LOG_DEBUG ''created response source: 0x%x'',
                     SourceAddSink COMMAND_SOURCE TAB, SourceAddSink TAB RESPONSE_SINK,
                     ThreadStart COMMAND_SOURCE]
      in if start_command_source env \<noteq> 0
         then (Aborted, t4 @ [Log LOG_ERROR ''failed to start connection_source''])
         else
      let t5 = t4 @ [ThreadStart TAB]
      in if start_tab env \<noteq> 0
         then (Aborted, t5 @ [Log LOG_ERROR ''failed to start Tab: %s''])
         else
      let t6 = t5 @ [ThreadStart RESPONSE_SINK]
      in if start_response_sink env \<noteq> 0
         then (Aborted, t6 @ [Log LOG_ERROR ''failed to start response_source''])
         else (Returned \<lparr>manager = Map.empty, rand_data = rd\<rparr>,
               t6 @ [MutexUnlock, Log LOG_INFO ''init_thread_func done'']))"

section \<open>Concrete runs\<close>

text \<open>
  A daemon whose entropy file gave the seed \<open>1038113177\<close>, just after initialisation, and
  the states after its first and second \<^verbatim>\<open>CreateConnection\<close>.
\<close>

definition good_env :: init_env where
  "good_env =
     \<lparr>rand_file = ''/dev/urandom'',
      entropy_source = \<lparr>open_ok = True, read_seed = Some 1038113177\<rparr>,
      manager_new = True, tcti_rc = 0,
      start_command_source = 0, start_tab = 0, start_response_sink = 0\<rparr>"

definition data0 :: gmain_data where
  "data0 = \<lparr>manager = Map.empty, rand_data = srand48_r 1038113177\<rparr>"

definition pairs :: "fd \<Rightarrow> socket_pairs" where
  "pairs n = \<lparr>client_fd0 = n, client_fd1 = n + 1,
              server_command_fd = n + 2, server_response_fd = n + 3\<rparr>"

definition data1 :: gmain_data where
  "data1 = fst (snd (on_handle_create_connection (Some (pairs 5)) data0))"

definition data2 :: gmain_data where
  "data2 = fst (snd (on_handle_create_connection (Some (pairs 9)) data1))"

text \<open>
  A registry holding one session, of id 7, with a 12-byte command in flight.
\<close>

definition busy_data :: gmain_data where
  "busy_data =
     \<lparr>manager = [7 \<mapsto> \<lparr>session_id = 7, locality = 0, command_endpoint = 7,
                          response_endpoint = 8,
                          pending = Some [0x80, 0x01, 0, 0, 0, 0x0C, 0, 0, 0x01, 0x44, 0, 0]\<rparr>],
      rand_data = srand48_r 1038113177\<rparr>"

section \<open>Facts about the concrete runs\<close>

lemmas handler_defs =
  on_handle_create_connection_def create_connection_reply_def create_connection_insert_def
  on_handle_cancel_def on_handle_set_locality_def
  session_manager_insert_def session_manager_lookup_id_def session_data_new_def
  handle_array_variant_from_fdlist_def

lemmas rand_defs = lrand48_r_def drand48_iterate_def srand48_r_def

lemma lrand48_r_bound: "fst (lrand48_r x) < 2 ^ 31"
proof -
  let ?y = "drand48_iterate x"
  have "unat ?y < 2 ^ 48"
    using unsigned_less [of ?y, where ?'a = nat] by simp
  then have b: "unat ?y div 2 ^ 17 < 2 ^ 31" by simp
  have e: "unat (drop_bit 17 ?y) = unat ?y div 2 ^ 17"
    by (subst unat_drop_bit_eq) (rule drop_bit_eq_div)
  have u: "unat (ucast y :: 64 word) = take_bit 64 (unat y)" for y :: "48 word"
    by (simp add: unsigned_ucast_eq)
  have "unat (ucast (drop_bit 17 ?y) :: 64 word) = take_bit 64 (unat ?y div 2 ^ 17)"
    by (simp only: u e)
  also have "\<dots> = unat ?y div 2 ^ 17"
    using b by (simp add: take_bit_nat_eq_self_iff)
  finally have "unat (ucast (drop_bit 17 ?y) :: 64 word) < 2 ^ 31"
    using b by simp
  then have "(ucast (drop_bit 17 ?y) :: 64 word) < 2 ^ 31"
    by (simp add: word_less_nat_alt)
  then show ?thesis
    by (simp add: lrand48_r_def Let_def)
qed

lemma data0_draw: "lrand48_r (rand_data data0) = (770080640, 100936009732353)"
  by (simp add: data0_def rand_defs)

lemma data1_eq:
  "data1 = \<lparr>manager = [770080640 \<mapsto> \<lparr>session_id = 770080640, locality = 0, command_endpoint = 7,
                 response_endpoint = 8, pending = None\<rparr>],
            rand_data = 100936009732353\<rparr>"
  by (simp add: data1_def handler_defs data0_draw pairs_def) (simp add: data0_def)

lemma data1_draw: "lrand48_r (rand_data data1) = (149890721, 19646476608376)"
  by (simp add: data1_eq rand_defs)

lemma data2_eq:
  "data2 = \<lparr>manager = [770080640 \<mapsto> \<lparr>session_id = 770080640, locality = 0, command_endpoint = 7,
                 response_endpoint = 8, pending = None\<rparr>,
               149890721 \<mapsto> \<lparr>session_id = 149890721, locality = 0, command_endpoint = 11,
                 response_endpoint = 12, pending = None\<rparr>],
            rand_data = 19646476608376\<rparr>"
  by (simp add: data2_def handler_defs data1_draw pairs_def) (simp add: data1_eq)

lemma data2_draw: "lrand48_r (rand_data data2) = (149890721, 19646476593699)"
  by (simp add: data2_eq rand_defs)

lemma seed_rand_data_cases:
  "seed_rand_data fname e rd =
     (if \<not> open_ok e
      then (1, rd, [Log LOG_DEBUG ''opening entropy source: %s'', Open fname,
                    Log LOG_WARNING ''failed to open entropy source %s: %s''])
      else case read_seed e of
             None \<Rightarrow>
               (1, rd, [Log LOG_DEBUG ''opening entropy source: %s'', Open fname,
                        Log LOG_DEBUG ''reading from entropy source: %s'', Read,
                        Log LOG_WARNING ''failed to read from entropy source %s, %s''])
           | Some v \<Rightarrow>
               (0, srand48_r v,
                [Log LOG_DEBUG ''opening entropy source: %s'', Open fname,
                 Log LOG_DEBUG ''reading from entropy source: %s'', Read,
                 Log LOG_DEBUG ''seeding rand with %ld'', Srand48 v]))"
  by (simp add: seed_rand_data_def split: option.splits)



lemma init_thread_func_returned:
  "init_thread_func env rd = (Returned data, t) \<Longrightarrow>
     \<exists>v. open_ok (entropy_source env) \<and> read_seed (entropy_source env) = Some v \<and>
         manager_new env \<and> tcti_rc env = TSS2_RC_SUCCESS \<and>
         start_command_source env = 0 \<and> start_tab env = 0 \<and> start_response_sink env = 0 \<and>
         data = \<lparr>manager = Map.empty, rand_data = srand48_r v\<rparr> \<and>
         t = [Log LOG_INFO ''init_thread_func start'', MutexLock, Signal SIGINT, Signal SIGTERM,
      Log LOG_DEBUG ''opening entropy source: %s'', Open (rand_file env),
      Log LOG_DEBUG ''reading from entropy source: %s'', Read,
      Log LOG_DEBUG ''seeding rand with %ld'', Srand48 v,
      SessionManagerNew, Log LOG_DEBUG ''SessionManager: 0x%x'', TctiInitialize,
      CommandSourceNew, Log LOG_DEBUG ''created session source: 0x%x'',
      TabNew, Log LOG_DEBUG ''created tab: 0x%x'',
      ResponseSinkNew, Log LOG_DEBUG ''created response source: 0x%x'',
      SourceAddSink COMMAND_SOURCE TAB, SourceAddSink TAB RESPONSE_SINK,
      ThreadStart COMMAND_SOURCE, ThreadStart TAB, ThreadStart RESPONSE_SINK,
      MutexUnlock, Log LOG_INFO ''init_thread_func done'']"
  by (auto simp: init_thread_func_def seed_rand_data_cases Let_def split: if_splits option.splits)




lemma on_handle_create_connection_cases:
  "on_handle_create_connection alloc d =
     (case session_data_new alloc (fst (lrand48_r (rand_data d))) of
        None \<Rightarrow>
          (Aborted, d\<lparr>rand_data := snd (lrand48_r (rand_data d))\<rparr>,
           [MutexLock, MutexUnlock, Lrand48, SessionDataNew (fst (lrand48_r (rand_data d))),
            Log LOG_ERROR ''Failed to allocate new session.''])
      | Some (s, fd0, fd1) \<Rightarrow>
          (if fst (session_manager_insert (manager d) s) \<noteq> ok
           then (Aborted,
                 d\<lparr>rand_data := snd (lrand48_r (rand_data d)),
                   manager := snd (session_manager_insert (manager d) s)\<rparr>,
                 [MutexLock, MutexUnlock, Lrand48, SessionDataNew (fst (lrand48_r (rand_data d))),
                  Log LOG_DEBUG ''Created connection with fds: %d, %d and id: %ld'',
                  ReturnValueWithUnixFdList [0, 1] (fst (lrand48_r (rand_data d))) [fd0, fd1],
                  SessionManagerInsert (session_id s),
                  Log LOG_ERROR ''Failed to add new session to session_manager.''])
           else (Returned True,
                 d\<lparr>rand_data := snd (lrand48_r (rand_data d)),
                   manager := snd (session_manager_insert (manager d) s)\<rparr>,
                 [MutexLock, MutexUnlock, Lrand48, SessionDataNew (fst (lrand48_r (rand_data d))),
                  Log LOG_DEBUG ''Created connection with fds: %d, %d and id: %ld'',
                  ReturnValueWithUnixFdList [0, 1] (fst (lrand48_r (rand_data d))) [fd0, fd1],
                  SessionManagerInsert (session_id s)])))"
  by (cases "lrand48_r (rand_data d)";
      cases "session_data_new alloc (fst (lrand48_r (rand_data d)))")
     (auto simp: on_handle_create_connection_def create_connection_reply_def
        create_connection_insert_def handle_array_variant_from_fdlist_def Let_def
        split: prod.splits)

lemma session_data_new_Some:
  "session_data_new (Some p) i =
     Some (\<lparr>session_id = i, locality = 0, command_endpoint = server_command_fd p,
             response_endpoint = server_response_fd p, pending = None\<rparr>,
           client_fd0 p, client_fd1 p)"
  by (simp add: session_data_new_def)


section \<open>Cancel\<close>

text \<open>
  Claim C1. A \<^verbatim>\<open>Cancel\<close> for a registered session should call the Broker's cancel
  operation and reply with the code that operation maps to. The handler does not: for
  the session of id 7, which has a command in flight, it makes the six calls below and
  no other, the last being the reply \<^verbatim>\<open>TSS2_RC_SUCCESS\<close>; the data, and with it the
  pending command, is as it was.
\<close>

theorem cancel_sends_success_without_cancelling:
  "on_handle_cancel 7 busy_data =
     (Returned True, busy_data,
      [Log LOG_INFO ''on_handle_cancel for id 0x%x'', MutexLock, MutexUnlock,
       SessionManagerLookupId 7, Log LOG_INFO ''canceling command for session 0x%x'',
       ReturnValue TSS2_RC_SUCCESS])"
  by (simp add: on_handle_cancel_def session_manager_lookup_id_def busy_data_def)

text \<open>
  Claim C4. A \<^verbatim>\<open>Cancel\<close> for a session with no outstanding command should be answered
  with the error \<open>nothing_to_cancel\<close>. The session the first \<^verbatim>\<open>CreateConnection\<close> made
  has never been used, and the handler answers \<^verbatim>\<open>TSS2_RC_SUCCESS\<close>.
\<close>

theorem cancel_never_used_session_sends_success:
  "map_option pending (manager data1 770080640) = Some None \<and>
   fst (on_handle_cancel 770080640 data1) = Returned True \<and>
   snd (snd (on_handle_cancel 770080640 data1)) =
     [Log LOG_INFO ''on_handle_cancel for id 0x%x'', MutexLock, MutexUnlock,
      SessionManagerLookupId 770080640, Log LOG_INFO ''canceling command for session 0x%x'',
      ReturnValue TSS2_RC_SUCCESS]"
  by (simp add: on_handle_cancel_def session_manager_lookup_id_def data1_eq)

section \<open>SetLocality\<close>

text \<open>
  Claim C2. A \<^verbatim>\<open>SetLocality\<close> for a registered session should store the locality in the
  session before it replies. The handler replies \<^verbatim>\<open>TSS2_RC_SUCCESS\<close> to a request for
  locality 3 and the session's locality is 0 before and after.
\<close>

theorem set_locality_leaves_locality_unchanged:
  "map_option locality (manager data1 770080640) = Some 0 \<and>
   fst (on_handle_set_locality 770080640 3 data1) = Returned True \<and>
   map_option locality (manager (fst (snd (on_handle_set_locality 770080640 3 data1))) 770080640)
     = Some 0 \<and>
   snd (snd (on_handle_set_locality 770080640 3 data1)) =
     [Log LOG_INFO ''on_handle_set_locality for id 0x%x'', MutexLock, MutexUnlock,
      SessionManagerLookupId 770080640,
      Log LOG_INFO ''setting locality for session 0x%x to: 0x%x'',
      ReturnValue TSS2_RC_SUCCESS]"
  by (simp add: on_handle_set_locality_def session_manager_lookup_id_def data1_eq)

section \<open>CreateConnection\<close>




text \<open>
  Claim C6, as stated: every id is drawn over the full 64-bit range and differs from
  every id issued before. It fails: in the daemon seeded with \<open>1038113177\<close> the second and
  the third \<^verbatim>\<open>CreateConnection\<close> both reply with the id \<open>149890721\<close>.
\<close>

theorem session_id_repeats:
  "ReturnValueWithUnixFdList [0, 1] 149890721 [9, 10]
     \<in> set (snd (snd (on_handle_create_connection (Some (pairs 9)) data1))) \<and>
   ReturnValueWithUnixFdList [0, 1] 149890721 [13, 14]
     \<in> set (snd (snd (on_handle_create_connection (Some (pairs 13)) data2)))"
  by (simp add: handler_defs data1_draw data2_draw pairs_def) (simp add: data1_eq data2_eq)

text \<open>
  Claim C6, amended: the id in a reply of \<^verbatim>\<open>CreateConnection\<close> is the next draw of the
  seeded generator, a value below \<open>2 ^ 31\<close> held in 64 bits, and the generator's state
  has advanced by that one draw. The handler does not compare the id with the ids issued
  before: whatever the registry holds, its first six calls are the same and end with the
  reply that carries the draw.
\<close>

theorem session_id_is_31_bit_draw:
  "(ReturnValueWithUnixFdList h i f \<in> set (snd (snd (on_handle_create_connection alloc d)))
      \<longrightarrow> i = fst (lrand48_r (rand_data d)) \<and> i < 2 ^ 31 \<and>
          rand_data (fst (snd (on_handle_create_connection alloc d)))
            = snd (lrand48_r (rand_data d))) \<and>
   take 6 (snd (snd (on_handle_create_connection (Some p) (d\<lparr>manager := m\<rparr>)))) =
     [MutexLock, MutexUnlock, Lrand48, SessionDataNew (fst (lrand48_r (rand_data d))),
      Log LOG_DEBUG ''Created connection with fds: %d, %d and id: %ld'',
      ReturnValueWithUnixFdList [0, 1] (fst (lrand48_r (rand_data d)))
        [client_fd0 p, client_fd1 p]]"
proof -
  have b: "fst (lrand48_r (rand_data d)) < 2 ^ 31"
    by (rule lrand48_r_bound)
  have r: "rand_data (fst (snd (on_handle_create_connection alloc d)))
            = snd (lrand48_r (rand_data d))"
    by (cases "session_data_new alloc (fst (lrand48_r (rand_data d)))")
       (auto simp: on_handle_create_connection_cases)
  have e: "ReturnValueWithUnixFdList h i f \<in> set (snd (snd (on_handle_create_connection alloc d)))
      \<longrightarrow> i = fst (lrand48_r (rand_data d))"
    by (cases "session_data_new alloc (fst (lrand48_r (rand_data d)))")
       (auto simp: on_handle_create_connection_cases split: if_splits)
  have t: "take 6 (snd (snd (on_handle_create_connection (Some p) (d\<lparr>manager := m\<rparr>)))) =
     [MutexLock, MutexUnlock, Lrand48, SessionDataNew (fst (lrand48_r (rand_data d))),
      Log LOG_DEBUG ''Created connection with fds: %d, %d and id: %ld'',
      ReturnValueWithUnixFdList [0, 1] (fst (lrand48_r (rand_data d)))
        [client_fd0 p, client_fd1 p]]"
    by (simp add: on_handle_create_connection_cases session_data_new_Some)
  from b r e t show ?thesis by auto
qed

theorem session_id_is_31_bit_draw_witness:
  "manager data2 149890721 \<noteq> None \<and>
   ReturnValueWithUnixFdList [0, 1] 149890721 [13, 14]
     \<in> set (snd (snd (on_handle_create_connection (Some (pairs 13)) data2))) \<and>
   (149890721 :: 64 word) = fst (lrand48_r (rand_data data2)) \<and>
   (149890721 :: 64 word) < 2 ^ 31 \<and>
   take 6 (snd (snd (on_handle_create_connection (Some (pairs 13)) data2))) =
     [MutexLock, MutexUnlock, Lrand48, SessionDataNew 149890721,
      Log LOG_DEBUG ''Created connection with fds: %d, %d and id: %ld'',
      ReturnValueWithUnixFdList [0, 1] 149890721 [13, 14]]"
proof -
  have m: "manager data2 149890721 \<noteq> None"
    by (simp add: data2_eq)
  have u: "data2\<lparr>manager := manager data2\<rparr> = data2"
    by simp
  have k: "ReturnValueWithUnixFdList [0, 1] 149890721 [13, 14]
     \<in> set (snd (snd (on_handle_create_connection (Some (pairs 13)) data2)))"
    by (simp add: on_handle_create_connection_cases session_data_new_Some data2_draw pairs_def)
  from session_id_is_31_bit_draw [where h = "[0, 1]" and i = 149890721 and f = "[13, 14]"
         and alloc = "Some (pairs 13)" and d = data2 and p = "pairs 13"
         and m = "manager data2"] m k
  show ?thesis
    by (simp add: u data2_draw pairs_def)
qed

section \<open>Failures in the control plane\<close>

text \<open>
  Claim C5, as stated: a failure while handling a request is answered with an error code
  and never ends the daemon. It fails: when the session cannot be allocated the handler
  of \<^verbatim>\<open>CreateConnection\<close> sends no reply and ends the process through \<^verbatim>\<open>g_error\<close>.
\<close>

theorem create_connection_aborts_on_allocation_failure:
  "fst (on_handle_create_connection None data0) = Aborted \<and>
   snd (snd (on_handle_create_connection None data0)) =
     [MutexLock, MutexUnlock, Lrand48, SessionDataNew 770080640,
      Log LOG_ERROR ''Failed to allocate new session.'']"
  by (simp add: handler_defs data0_draw)

text \<open>
  Claim C5, amended: the handlers of \<^verbatim>\<open>Cancel\<close> and \<^verbatim>\<open>SetLocality\<close> never end the daemon;
  for an id with no session they log a warning, send no reply of their own and return
  \<^verbatim>\<open>FALSE\<close>, and otherwise they return \<^verbatim>\<open>TRUE\<close>. The handler of \<^verbatim>\<open>CreateConnection\<close> ends
  the daemon through \<^verbatim>\<open>g_error\<close> when \<^verbatim>\<open>session_data_new\<close> returns no session, before any
  reply, and when \<^verbatim>\<open>session_manager_insert\<close> does not return \<open>ok\<close>, after the reply
  was sent; in every other case it returns \<^verbatim>\<open>TRUE\<close>.
\<close>

theorem control_plane_outcomes:
  "fst (on_handle_cancel i d) \<noteq> Aborted \<and>
   fst (on_handle_set_locality i l d) \<noteq> Aborted \<and>
   (session_manager_lookup_id (manager d) i = None \<longrightarrow>
      on_handle_cancel i d =
        (Returned False, d,
         [Log LOG_INFO ''on_handle_cancel for id 0x%x'', MutexLock, MutexUnlock,
          SessionManagerLookupId i, Log LOG_WARNING ''no active session for id: 0x%x'']) \<and>
      on_handle_set_locality i l d =
        (Returned False, d,
         [Log LOG_INFO ''on_handle_set_locality for id 0x%x'', MutexLock, MutexUnlock,
          SessionManagerLookupId i, Log LOG_WARNING ''no active session for id: 0x%x''])) \<and>
   (session_manager_lookup_id (manager d) i \<noteq> None \<longrightarrow>
      fst (on_handle_cancel i d) = Returned True \<and>
      fst (on_handle_set_locality i l d) = Returned True) \<and>
   (session_data_new alloc (fst (lrand48_r (rand_data d))) = None \<longrightarrow>
      fst (on_handle_create_connection alloc d) = Aborted \<and>
      snd (snd (on_handle_create_connection alloc d)) =
        [MutexLock, MutexUnlock, Lrand48, SessionDataNew (fst (lrand48_r (rand_data d))),
         Log LOG_ERROR ''Failed to allocate new session.'']) \<and>
   (session_data_new alloc (fst (lrand48_r (rand_data d))) = Some (s, fd0, fd1) \<longrightarrow>
      (fst (session_manager_insert (manager d) s) \<noteq> ok \<longrightarrow>
         fst (on_handle_create_connection alloc d) = Aborted \<and>
         snd (snd (on_handle_create_connection alloc d)) =
           [MutexLock, MutexUnlock, Lrand48, SessionDataNew (fst (lrand48_r (rand_data d))),
            Log LOG_DEBUG ''Created connection with fds: %d, %d and id: %ld'',
            ReturnValueWithUnixFdList [0, 1] (fst (lrand48_r (rand_data d))) [fd0, fd1],
            SessionManagerInsert (session_id s),
            Log LOG_ERROR ''Failed to add new session to session_manager.'']) \<and>
      (fst (session_manager_insert (manager d) s) = ok \<longrightarrow>
         fst (on_handle_create_connection alloc d) = Returned True))"
proof -
  let ?m = "session_manager_lookup_id (manager d) i"
  have c: "fst (on_handle_cancel i d) \<noteq> Aborted"
    by (cases ?m) (simp_all add: on_handle_cancel_def)
  have s: "fst (on_handle_set_locality i l d) \<noteq> Aborted"
    by (cases ?m) (simp_all add: on_handle_set_locality_def)
  have n: "?m = None \<longrightarrow>
      on_handle_cancel i d =
        (Returned False, d,
         [Log LOG_INFO ''on_handle_cancel for id 0x%x'', MutexLock, MutexUnlock,
          SessionManagerLookupId i, Log LOG_WARNING ''no active session for id: 0x%x'']) \<and>
      on_handle_set_locality i l d =
        (Returned False, d,
         [Log LOG_INFO ''on_handle_set_locality for id 0x%x'', MutexLock, MutexUnlock,
          SessionManagerLookupId i, Log LOG_WARNING ''no active session for id: 0x%x''])"
    by (simp add: on_handle_cancel_def on_handle_set_locality_def)
  have y: "?m \<noteq> None \<longrightarrow>
      fst (on_handle_cancel i d) = Returned True \<and>
      fst (on_handle_set_locality i l d) = Returned True"
    by (cases ?m) (simp_all add: on_handle_cancel_def on_handle_set_locality_def)
  have a: "session_data_new alloc (fst (lrand48_r (rand_data d))) = None \<longrightarrow>
      fst (on_handle_create_connection alloc d) = Aborted \<and>
      snd (snd (on_handle_create_connection alloc d)) =
        [MutexLock, MutexUnlock, Lrand48, SessionDataNew (fst (lrand48_r (rand_data d))),
         Log LOG_ERROR ''Failed to allocate new session.'']"
    by (simp add: on_handle_create_connection_cases)
  have b: "session_data_new alloc (fst (lrand48_r (rand_data d))) = Some (s, fd0, fd1) \<longrightarrow>
      (fst (session_manager_insert (manager d) s) \<noteq> ok \<longrightarrow>
         fst (on_handle_create_connection alloc d) = Aborted \<and>
         snd (snd (on_handle_create_connection alloc d)) =
           [MutexLock, MutexUnlock, Lrand48, SessionDataNew (fst (lrand48_r (rand_data d))),
            Log LOG_DEBUG ''Created connection with fds: %d, %d and id: %ld'',
            ReturnValueWithUnixFdList [0, 1] (fst (lrand48_r (rand_data d))) [fd0, fd1],
            SessionManagerInsert (session_id s),
            Log LOG_ERROR ''Failed to add new session to session_manager.'']) \<and>
      (fst (session_manager_insert (manager d) s) = ok \<longrightarrow>
         fst (on_handle_create_connection alloc d) = Returned True)"
    by (simp add: on_handle_create_connection_cases)
  from c s n y a b show ?thesis by (intro conjI)
qed

theorem control_plane_outcomes_witness:
  "on_handle_cancel 1 data2 =
     (Returned False, data2,
      [Log LOG_INFO ''on_handle_cancel for id 0x%x'', MutexLock, MutexUnlock,
       SessionManagerLookupId 1, Log LOG_WARNING ''no active session for id: 0x%x'']) \<and>
   fst (on_handle_set_locality 1 3 data2) = Returned False \<and>
   fst (on_handle_cancel 770080640 data2) = Returned True \<and>
   fst (on_handle_set_locality 770080640 3 data2) = Returned True \<and>
   fst (on_handle_create_connection None data1) = Aborted \<and>
   snd (snd (on_handle_create_connection None data1)) =
     [MutexLock, MutexUnlock, Lrand48, SessionDataNew 149890721,
      Log LOG_ERROR ''Failed to allocate new session.''] \<and>
   fst (on_handle_create_connection (Some (pairs 13)) data2) = Aborted \<and>
   snd (snd (on_handle_create_connection (Some (pairs 13)) data2)) =
     [MutexLock, MutexUnlock, Lrand48, SessionDataNew 149890721,
      Log LOG_DEBUG ''Created connection with fds: %d, %d and id: %ld'',
      ReturnValueWithUnixFdList [0, 1] 149890721 [13, 14],
      SessionManagerInsert 149890721,
      Log LOG_ERROR ''Failed to add new session to session_manager.''] \<and>
   fst (on_handle_create_connection (Some (pairs 9)) data1) = Returned True"
proof -
  let ?s2 = "\<lparr>session_id = 149890721, locality = 0, command_endpoint = 15,
               response_endpoint = 16, pending = None\<rparr>"
  let ?s1 = "\<lparr>session_id = 149890721, locality = 0, command_endpoint = 11,
               response_endpoint = 12, pending = None\<rparr>"
  have n1: "session_manager_lookup_id (manager data2) 1 = None"
    by (simp add: session_manager_lookup_id_def data2_eq)
  have n2: "session_manager_lookup_id (manager data2) 770080640 \<noteq> None"
    by (simp add: session_manager_lookup_id_def data2_eq)
  have a0: "session_data_new None (fst (lrand48_r (rand_data data1))) = None"
    by (simp add: session_data_new_def)
  have a2: "session_data_new (Some (pairs 13)) (fst (lrand48_r (rand_data data2)))
              = Some (?s2, 13, 14)"
    by (simp add: session_data_new_def data2_draw pairs_def)
  have i2: "fst (session_manager_insert (manager data2) ?s2) \<noteq> ok"
    by (simp add: session_manager_insert_def data2_eq)
  have a1: "session_data_new (Some (pairs 9)) (fst (lrand48_r (rand_data data1)))
              = Some (?s1, 9, 10)"
    by (simp add: session_data_new_def data1_draw pairs_def)
  have i1: "fst (session_manager_insert (manager data1) ?s1) = ok"
    by (simp add: session_manager_insert_def data1_eq)
  from control_plane_outcomes [where i = 1 and d = data2 and l = 3
         and alloc = "Some (pairs 13)" and s = ?s2 and ?fd0.0 = 13 and ?fd1.0 = 14]
       control_plane_outcomes [where i = 770080640 and d = data2 and l = 3
         and alloc = "Some (pairs 13)" and s = ?s2 and ?fd0.0 = 13 and ?fd1.0 = 14]
       control_plane_outcomes [where i = 1 and d = data1 and l = 3
         and alloc = None and s = ?s1 and ?fd0.0 = 9 and ?fd1.0 = 10]
       control_plane_outcomes [where i = 1 and d = data1 and l = 3
         and alloc = "Some (pairs 9)" and s = ?s1 and ?fd0.0 = 9 and ?fd1.0 = 10]
       n1 n2 a0 a2 i2 a1 i1
  show ?thesis
    by (simp add: data1_draw data2_draw)
qed

section \<open>The signal handler\<close>

text \<open>
  Claim C9, as stated: the handler of \<^verbatim>\<open>SIGINT\<close> and \<^verbatim>\<open>SIGTERM\<close> only records the
  shutdown request and calls neither logging nor event-loop functions. It fails: with
  the main loop running, the handler logs twice, asks the loop whether it is running
  and quits it.
\<close>

theorem signal_handler_logs_and_quits_loop:
  "signal_handler SIGINT (Some \<lparr>is_running = True\<rparr>) =
     (Some \<lparr>is_running = False\<rparr>,
      [Log LOG_INFO ''handling signal'', Log LOG_INFO ''main_loop_quit'',
       MainLoopIsRunning, MainLoopQuit])"
  by (simp add: signal_handler_def main_loop_quit_def)

text \<open>
  Claim C9, amended: the signal handler logs a message and calls \<^verbatim>\<open>main_loop_quit\<close> on
  the global loop, which logs again and, for a loop that is not \<^verbatim>\<open>NULL\<close>, asks whether it
  is running and quits it if so; the handler makes no other call, and its only effect on
  the loop is that it is no longer running.
\<close>

theorem signal_handler_calls:
  "snd (signal_handler signum g_loop) =
     [Log LOG_INFO ''handling signal'', Log LOG_INFO ''main_loop_quit''] @
     (case g_loop of
        None \<Rightarrow> []
      | Some l \<Rightarrow> MainLoopIsRunning # (if is_running l then [MainLoopQuit] else [])) \<and>
   fst (signal_handler signum g_loop) = map_option (is_running_update (\<lambda>_. False)) g_loop"
  by (cases g_loop) (auto simp: signal_handler_def main_loop_quit_def)

theorem signal_handler_calls_witness:
  "snd (signal_handler SIGTERM (Some \<lparr>is_running = False\<rparr>)) =
     [Log LOG_INFO ''handling signal'', Log LOG_INFO ''main_loop_quit'', MainLoopIsRunning] \<and>
   snd (signal_handler SIGTERM None) =
     [Log LOG_INFO ''handling signal'', Log LOG_INFO ''main_loop_quit'']"
  using signal_handler_calls [of SIGTERM "Some \<lparr>is_running = False\<rparr>"]
    signal_handler_calls [of SIGTERM None]
  by simp

section \<open>The initialisation thread\<close>



text \<open>
  Claim C8. When the entropy file cannot be opened or read, when the transport's
  initialisation does not return \<^verbatim>\<open>TSS2_RC_SUCCESS\<close>, or when one of the three
  \<^verbatim>\<open>thread_start\<close> calls does not return 0, the initialisation thread ends the process
  through \<^verbatim>\<open>g_error\<close>, that is by \<^verbatim>\<open>abort\<close>.
\<close>

theorem init_failure_aborts:
  "\<not> open_ok (entropy_source env) \<or> read_seed (entropy_source env) = None \<or>
   tcti_rc env \<noteq> TSS2_RC_SUCCESS \<or>
   start_command_source env \<noteq> 0 \<or> start_tab env \<noteq> 0 \<or> start_response_sink env \<noteq> 0
   \<Longrightarrow> fst (init_thread_func env rd) = Aborted"
proof (rule ccontr)
  assume f: "\<not> open_ok (entropy_source env) \<or> read_seed (entropy_source env) = None \<or>
   tcti_rc env \<noteq> TSS2_RC_SUCCESS \<or>
   start_command_source env \<noteq> 0 \<or> start_tab env \<noteq> 0 \<or> start_response_sink env \<noteq> 0"
  assume "fst (init_thread_func env rd) \<noteq> Aborted"
  then obtain data t where "init_thread_func env rd = (Returned data, t)"
    by (cases "init_thread_func env rd"; cases "fst (init_thread_func env rd)") auto
  from init_thread_func_returned [OF this] f show False by auto
qed

theorem init_failure_aborts_witness:
  "fst (init_thread_func (good_env\<lparr>entropy_source := \<lparr>open_ok = True, read_seed = None\<rparr>\<rparr>) 0)
     = Aborted \<and>
   fst (init_thread_func (good_env\<lparr>entropy_source := \<lparr>open_ok = False, read_seed = None\<rparr>\<rparr>) 0)
     = Aborted \<and>
   fst (init_thread_func (good_env\<lparr>tcti_rc := 0xA000A\<rparr>) 0) = Aborted \<and>
   fst (init_thread_func (good_env\<lparr>start_tab := - 1\<rparr>) 0) = Aborted"
  using
    init_failure_aborts [of "good_env\<lparr>entropy_source := \<lparr>open_ok = True, read_seed = None\<rparr>\<rparr>" 0]
    init_failure_aborts [of "good_env\<lparr>entropy_source := \<lparr>open_ok = False, read_seed = None\<rparr>\<rparr>" 0]
    init_failure_aborts [of "good_env\<lparr>tcti_rc := 0xA000A\<rparr>" 0]
    init_failure_aborts [of "good_env\<lparr>start_tab := - 1\<rparr>" 0]
  by (simp add: good_env_def TSS2_RC_SUCCESS_def)

end
